theory Spec2Isabelle
  imports Complex_Main
begin

section \<open>The FAIR indicator evaluator (api/evaluator.py)\<close>

text \<open>
  A shallow embedding of the class \<open>Evaluator\<close> of \<open>api/evaluator.py\<close>. Every
  indicator method returns a pair \<open>(points, msg)\<close>; a Python exception that leaves
  the method is the left summand of the result type.
\<close>

subsection \<open>Exceptions\<close>

datatype error =
    TypeError
  | NameError
  | ValueError
  | IndexError
  | AttributeError
  | UnboundLocalError
  | ZeroDivisionError
  | RequestException

subsection \<open>The metadata table and the evaluator object\<close>

text \<open>
  \<open>self.metadata\<close> is a data frame with the columns
  \<open>['metadata_schema', 'element', 'text_value', 'qualifier']\<close>; a row keeps
  \<open>None\<close> where the XML node has no text, and the constructor stores
  \<open>qualifier = None\<close> in every row.
\<close>

record row =
  metadata_schema :: string
  element :: string
  text_value :: "string option"
  qualifier :: "string option"

text \<open>
  The constructor ends with \<open>len(self.metadata)\<close>, which raises on \<open>None\<close>, so a
  constructed object always holds a table: the field is a list of rows.
\<close>

record Evaluator =
  item_id :: string
  oai_base :: "string option"
  metadata :: "row list"
  access_protocols :: "string list"

subsection \<open>Status and colour of a score\<close>

definition get_color :: "int \<Rightarrow> string" where
  "get_color points =
     (if points < 50 then ''#E74C3C''
      else if points > 80 then ''#2ECC71''
      else ''#F4D03F'')"

definition test_status :: "int \<Rightarrow> string" where
  "test_status points =
     (let test_status0 = ''fail'';
          test_status1 = (if points > 50 \<and> points < 75 then ''indeterminate'' else test_status0);
          test_status2 = (if points \<ge> 75 then ''pass'' else test_status1)
      in test_status2)"

subsection \<open>Indicators that only look at the size of the table\<close>

definition rda_f4_01m :: "Evaluator \<Rightarrow> error + (int \<times> string)" where
  "rda_f4_01m self =
     (if length (metadata self) > 0
      then Inr (100, ''Your digital object is available via OAI-PMH harvesting protocol'')
      else Inr (0, ''Your digital object is not available via OAI-PMH. Please, contact to DIGITAL.CSIC admins''))"

definition rda_i1_01m :: "Evaluator \<Rightarrow> error + (int \<times> string)" where
  "rda_i1_01m self =
     (if length (metadata self) > 0
      then Inr (100, ''Metadata using interoperable representation (XML)'')
      else Inr (0, ''Metadata IS NOT using interoperable representation (XML)''))"

subsection \<open>Formatting\<close>

text \<open>
  \<open>'%i' % n\<close> for a count \<open>n\<close>, and \<open>'%s' % v\<close> for a value that is a string
  or \<open>None\<close>.
\<close>

fun str_nat :: "nat \<Rightarrow> string" where
  "str_nat n =
     (if n < 10 then [char_of (48 + n)]
      else str_nat (n div 10) @ [char_of (48 + n mod 10)])"

definition str_opt :: "string option \<Rightarrow> string" where
  "str_opt v = (case v of None \<Rightarrow> ''None'' | Some s \<Rightarrow> s)"

subsection \<open>The liveness probe\<close>

text \<open>
  \<open>requests.get(url, verify=False)\<close>: the call's arguments are a record, with
  \<open>None\<close> for the keyword \<open>timeout\<close> that the call does not pass. The network
  is a parameter: it answers a request with a status code or raises.
\<close>

record request =
  http_method :: string
  url :: string
  verify :: bool
  timeout :: "nat option"

type_synonym transport = "request \<Rightarrow> error + nat"

definition check_url_request :: "string \<Rightarrow> request" where
  "check_url_request u =
     \<lparr>http_method = ''GET'', url = u, verify = False, timeout = None\<rparr>"

definition check_url :: "transport \<Rightarrow> string \<Rightarrow> bool" where
  "check_url requests u =
     (case requests (check_url_request u) of
        Inr status_code \<Rightarrow> (if status_code = 200 then True else False)
      | Inl err \<Rightarrow> False)"

subsection \<open>License indicators\<close>

fun license_values :: "row list \<Rightarrow> string option list" where
  "license_values [] = []"
| "license_values (r # rs) =
     (if element r = ''license'' then text_value r # license_values rs
      else license_values rs)"

definition rda_r1_1_01m :: "Evaluator \<Rightarrow> error + (int \<times> string)" where
  "rda_r1_1_01m self =
     (let license = license_values (metadata self) in
      if length license > 0
      then Inr (100, ''Indicator OK. Your digital object includes license information'')
      else Inr (0, ''You should include information about the license.''))"

text \<open>
  \<open>for row in license: lic_ok = self.check_url(row[0])\<close>: \<open>row\<close> is the text of a
  license node, so \<open>row[0]\<close> is its first character (a string of length one); it
  raises on \<open>None\<close> and on the empty string. \<open>lic_ok\<close> is unbound until the loop
  has run once.
\<close>

fun license_loop :: "transport \<Rightarrow> string option list \<Rightarrow> bool option \<Rightarrow> error + bool option" where
  "license_loop requests [] lic_ok = Inr lic_ok"
| "license_loop requests (None # rest) lic_ok = Inl TypeError"
| "license_loop requests (Some [] # rest) lic_ok = Inl IndexError"
| "license_loop requests (Some (c # cs) # rest) lic_ok =
     license_loop requests rest (Some (check_url requests [c]))"

definition rda_r1_1_02m :: "transport \<Rightarrow> Evaluator \<Rightarrow> error + (int \<times> string)" where
  "rda_r1_1_02m requests self =
     (let license = license_values (metadata self) in
      case license_loop requests license None of
        Inl err \<Rightarrow> Inl err
      | Inr lic_ok \<Rightarrow>
          if length license = 0
          then Inr (0, ''Your license is NOT included or DOES NOT refer to a standard reuse license'')
          else (case lic_ok of
                  None \<Rightarrow> Inl UnboundLocalError
                | Some ok \<Rightarrow>
                    if ok
                    then Inr (100, ''Your license refers to a standard reuse license'')
                    else Inr (0, ''Your license is NOT included or DOES NOT refer to a standard reuse license'')))"

subsection \<open>References to other objects\<close>

fun i3_01m_loop :: "row list \<Rightarrow> nat \<times> nat \<Rightarrow> nat \<times> nat" where
  "i3_01m_loop [] (orcids, pids) = (orcids, pids)"
| "i3_01m_loop (r # rs) (orcids, pids) =
     i3_01m_loop rs
       (if element r = ''contributor'' then orcids + 1 else orcids,
        if element r = ''relation'' then pids + 1 else pids)"

definition rda_i3_01m :: "Evaluator \<Rightarrow> error + (int \<times> string)" where
  "rda_i3_01m self =
     (case i3_01m_loop (metadata self) (0, 0) of
        (orcids, pids) \<Rightarrow>
          if orcids > 0 \<or> pids > 0
          then Inr (100,
                 ''Your (meta)data includes '' @ str_nat pids @
                 '' references to other digital objects and '' @ str_nat orcids @
                 '' references for contributors. Do you think you can improve that information?'')
          else Inr (0, ''Your (meta)data does not include references to other digital objects or contributors. If your digital object is isolated, you can consider this OK, but it is recommendable to include such as references''))"

definition rda_i3_01d :: "Evaluator \<Rightarrow> error + (int \<times> string)" where
  "rda_i3_01d self = rda_i3_01m self"

text \<open>
  The library \<open>idutils\<close> is external: its two functions are parameters, and either
  may raise. \<open>detect_identifier_schemes\<close> returns a list of scheme names.
\<close>

record idutils =
  detect_identifier_schemes :: "string option \<Rightarrow> error + string list"
  normalize_pid :: "string option \<Rightarrow> string \<Rightarrow> error + string"

text \<open>
  Python's \<open>+\<close> with a \<open>str\<close> on the left and a \<open>list\<close> on the right:
  \<open>TypeError: can only concatenate str (not "list") to str\<close>, whatever the operands.
\<close>

definition str_add_list :: "string \<Rightarrow> string list \<Rightarrow> error + string" where
  "str_add_list s xs = Inl TypeError"

text \<open>
  The loop of RDA-I3-02M. \<open>ref_types\<close> starts as the string \<open>''\<close> and
  \<open>identifiers_scheme\<close> is the list that \<open>detect_identifier_schemes\<close> returned, so
  \<open>ref_types = ref_types + identifiers_scheme\<close> is a \<open>str + list\<close>.
\<close>

fun i3_02m_loop ::
  "idutils \<Rightarrow> string \<Rightarrow> row list \<Rightarrow> nat \<times> string \<Rightarrow> error + (nat \<times> string)" where
  "i3_02m_loop idu iid [] (references, ref_types) = Inr (references, ref_types)"
| "i3_02m_loop idu iid (r # rs) (references, ref_types) =
     (case detect_identifier_schemes idu (text_value r) of
        Inl err \<Rightarrow> Inl err
      | Inr [] \<Rightarrow> i3_02m_loop idu iid rs (references, ref_types)
      | Inr (scheme0 # schemes) \<Rightarrow>
          (case normalize_pid idu (text_value r) scheme0 of
             Inl err \<Rightarrow> Inl err
           | Inr a \<Rightarrow>
               (case normalize_pid idu (Some iid) scheme0 of
                  Inl err \<Rightarrow> Inl err
                | Inr b \<Rightarrow>
                    if a \<noteq> b
                    then (case str_add_list ref_types (scheme0 # schemes) of
                            Inl err \<Rightarrow> Inl err
                          | Inr ref_types' \<Rightarrow>
                              i3_02m_loop idu iid rs (references + 1, ref_types'))
                    else i3_02m_loop idu iid rs (references, ref_types))))"

definition rda_i3_02m :: "idutils \<Rightarrow> Evaluator \<Rightarrow> error + (int \<times> string)" where
  "rda_i3_02m idu self =
     (case i3_02m_loop idu (item_id self) (metadata self) (0, '''') of
        Inl err \<Rightarrow> Inl err
      | Inr (references, ref_types) \<Rightarrow>
          if references > 0
          then Inr (100,
                 ''Your (meta)data includes '' @ str_nat references @
                 '' qualified references to other digital objects. Types: '' @ ref_types @
                 ''. Do you think you can improve that information?'')
          else Inr (0, ''Your (meta)data does not include qualified references to other digital objects or contributors. If your digital object is isolated, you can consider this OK, but it is recommendable to include such as references''))"

definition rda_i3_02d :: "idutils \<Rightarrow> Evaluator \<Rightarrow> error + (int \<times> string)" where
  "rda_i3_02d idu self = rda_i3_02m idu self"

subsection \<open>The term-presence checker\<close>

text \<open>
  The table that \<open>ut.check_metadata_terms\<close> returns: the rows of the vocabulary
  (columns \<open>term\<close> and \<open>qualifier\<close>) with the column \<open>found\<close> added.
\<close>

record term_row =
  tr_term :: string
  tr_qualifier :: "string option"
  found :: int

text \<open>
  Modelled from the spec: the matching rule of \<open>ut.check_metadata_terms\<close>, which
  lives in \<open>api/utils.py\<close> and is not among the sources. Section 4.3 of the
  specification: a requirement matches an entry of the table iff the element is equal,
  and the required qualifier is null or equals the entry's qualifier (exact,
  case-sensitive comparison).
\<close>

definition term_matches :: "string \<Rightarrow> string option \<Rightarrow> row \<Rightarrow> bool" where
  "term_matches e q r \<longleftrightarrow> element r = e \<and> (q = None \<or> q = qualifier r)"

text \<open>
  Modelled from the spec: \<open>ut.check_metadata_terms\<close> itself (\<open>api/utils.py\<close>, not
  among the sources). Section 4.3 of the specification: for each requirement of the
  vocabulary, in order, a found flag, 1 when some entry of the table matches it and 0
  otherwise.
\<close>

definition check_metadata_terms ::
  "row list \<Rightarrow> (string \<times> string option) list \<Rightarrow> term_row list" where
  "check_metadata_terms md terms =
     map (\<lambda>(e, q). \<lparr>tr_term = e, tr_qualifier = q,
                     found = (if list_ex (term_matches e q) md then 1 else 0)\<rparr>) terms"

subsection \<open>Richness of the description\<close>

definition terms_quali_f2_01m :: "(string \<times> string option) list" where
  "terms_quali_f2_01m =
     [(''contributor'', None), (''date'', None), (''description'', None),
      (''identifier'', None), (''publisher'', None), (''rights'', None),
      (''title'', None), (''subject'', None)]"

text \<open>
  \<open>points = 100 * (len - (len - sum(found))) / len\<close> with Python 3's true division:
  the result is a float and nothing rounds it. The vocabulary has eight rows, so the
  value is a multiple of 12.5, which a binary float holds exactly: the rationals model
  it without error, and so they do the sum and the halving of RDA-F2-01M.
\<close>

definition f2_01m_points :: "term_row list \<Rightarrow> error + rat" where
  "f2_01m_points md_term_list =
     (let n = int (length md_term_list) in
      if n = 0 then Inl ZeroDivisionError
      else Inr (of_int (100 * (n - (n - sum_list (map found md_term_list)))) / of_int n))"

fun missing_terms_loop :: "term_row list \<Rightarrow> string \<Rightarrow> string" where
  "missing_terms_loop [] msg = msg"
| "missing_terms_loop (e # es) msg =
     missing_terms_loop es
       (if found e = 0
        then msg @ ''| term: '' @ tr_term e @ '', qualifier: '' @ str_opt (tr_qualifier e)
        else msg)"

definition rda_f2_01m_generic :: "Evaluator \<Rightarrow> error + (rat \<times> string)" where
  "rda_f2_01m_generic self =
     (let msg = ''Checking Dublin Core'';
          md_term_list = check_metadata_terms (metadata self) terms_quali_f2_01m
      in case f2_01m_points md_term_list of
           Inl err \<Rightarrow> Inl err
         | Inr points \<Rightarrow>
             if points = 100
             then Inr (points, msg @ ''... All mandatory terms included'')
             else Inr (points, missing_terms_loop md_term_list (msg @ ''... Missing terms:'')))"

definition rda_f2_01m_disciplinar :: "Evaluator \<Rightarrow> error + (rat \<times> string)" where
  "rda_f2_01m_disciplinar self =
     (let msg = ''Checking Dublin Core as multidisciplinar schema'';
          md_term_list = check_metadata_terms (metadata self) terms_quali_f2_01m
      in case f2_01m_points md_term_list of
           Inl err \<Rightarrow> Inl err
         | Inr points \<Rightarrow>
             if points = 100
             then Inr (points, msg @ ''... All mandatory terms included'')
             else Inr (points, missing_terms_loop md_term_list (msg @ ''... Missing terms:'')))"

definition rda_f2_01m :: "Evaluator \<Rightarrow> error + (rat \<times> string)" where
  "rda_f2_01m self =
     (case rda_f2_01m_generic self of
        Inl err \<Rightarrow> Inl err
      | Inr (points_g, msg_g) \<Rightarrow>
          (case rda_f2_01m_disciplinar self of
             Inl err \<Rightarrow> Inl err
           | Inr (points_d, msg_d) \<Rightarrow>
               Inr ((points_g + points_d) / 2, msg_g @ '' | '' @ msg_d)))"

text \<open>
  The specification's coverage of a vocabulary by a table, in its own words and before
  any rounding: 100 times the number of requirements matched, over the number of
  requirements. It is what the score of the indicator is compared with.
\<close>

definition requirement_met :: "row list \<Rightarrow> string \<times> string option \<Rightarrow> bool" where
  "requirement_met md req \<longleftrightarrow> list_ex (term_matches (fst req) (snd req)) md"

definition coverage :: "row list \<Rightarrow> (string \<times> string option) list \<Rightarrow> rat" where
  "coverage md terms =
     100 * of_nat (length (filter (requirement_met md) terms)) / of_nat (length terms)"

subsection \<open>Human access to the data\<close>

text \<open>
  In the loop of RDA-A1-02D the message is built from \<open>metadata.loc[...]\<close>, and
  \<open>metadata\<close> is neither a local of the method nor a name of the module (the table
  is \<open>self.metadata\<close>): evaluating it raises \<open>NameError\<close>.
\<close>

fun a1_02d_loop :: "term_row list \<Rightarrow> int \<times> string \<Rightarrow> error + (int \<times> string)" where
  "a1_02d_loop [] (points, msg) = Inr (points, msg)"
| "a1_02d_loop (elem # rest) (points, msg) =
     (if found elem = 1 then Inl NameError
      else a1_02d_loop rest (points, msg))"

definition rda_a1_02d :: "Evaluator \<Rightarrow> error + (int \<times> string)" where
  "rda_a1_02d self =
     (let points = 0;
          msg = ''Checking Dublin Core'';
          terms_quali = [(''access'', Some ''''), (''rights'', Some '''')];
          md_term_list = check_metadata_terms (metadata self) terms_quali
      in if sum_list (map found md_term_list) > 0
         then a1_02d_loop md_term_list (points, msg)
         else Inr (points, msg))"

subsection \<open>Identifiers of the object\<close>

text \<open>
  \<open>ut.find_ids_in_metadata\<close> is not among the sources either; the indicators take it
  as a parameter. It returns a table with the columns \<open>identifier\<close> and \<open>type\<close>,
  where \<open>type\<close> is the list of detected schemes, or null (\<open>identifier\<close> is a
  reserved word here, so the field is \<open>id_identifier\<close>).
\<close>

record id_row =
  id_identifier :: string
  type :: "string list option"

type_synonym find_ids = "row list \<Rightarrow> string list \<Rightarrow> id_row list"

text \<open>
  \<open>'%s' % e.type\<close> prints a list of scheme names as Python does, each name between
  single quotes; scheme names hold no quote and no backslash.
\<close>

fun join_comma :: "string list \<Rightarrow> string" where
  "join_comma [] = ''''"
| "join_comma [x] = x"
| "join_comma (x # y # zs) = x @ '', '' @ join_comma (y # zs)"

definition str_type :: "string list option \<Rightarrow> string" where
  "str_type t =
     (case t of
        None \<Rightarrow> ''None''
      | Some xs \<Rightarrow> ''['' @ join_comma (map (\<lambda>s. [CHR 0x27] @ s @ [CHR 0x27]) xs) @ '']'')"

fun f1_01m_loop :: "id_row list \<Rightarrow> string \<Rightarrow> string" where
  "f1_01m_loop [] msg = msg"
| "f1_01m_loop (e # es) msg =
     f1_01m_loop es (msg @ ''| '' @ id_identifier e @ '': '' @ str_type (type e) @ '' | '')"

text \<open>
  In the branch of the untyped identifiers both methods run \<open>for i, e in id_list\<close>:
  iterating a data frame yields its column labels, and unpacking the label
  \<open>'identifier'\<close> (or \<open>'type'\<close>) into two names raises \<open>ValueError\<close>.
\<close>

definition rda_f1_01m :: "find_ids \<Rightarrow> Evaluator \<Rightarrow> error + (int \<times> string)" where
  "rda_f1_01m find_ids_in_metadata self =
     (let elements = [''identifier''];
          id_list = find_ids_in_metadata (metadata self) elements
      in if length id_list > 0
         then (let typed = filter (\<lambda>e. type e \<noteq> None) id_list
               in if length typed > 0
                  then Inr (100, f1_01m_loop typed
                         ''Your (meta)data is identified with this identifier(s) and type(s): '')
                  else Inl ValueError)
         else Inr (0, ''Your (meta)data is not identified by persistent identifiers:''))"

definition rda_f1_01d :: "find_ids \<Rightarrow> Evaluator \<Rightarrow> error + (int \<times> string)" where
  "rda_f1_01d find_ids_in_metadata self =
     (case rda_f1_01m find_ids_in_metadata self of
        Inl err \<Rightarrow> Inl err
      | Inr (points, msg) \<Rightarrow> Inr (points, msg))"

fun f1_02m_loop :: "id_row list \<Rightarrow> int \<times> string \<Rightarrow> error + (int \<times> string)" where
  "f1_02m_loop [] (points, msg) = Inr (points, msg)"
| "f1_02m_loop (e # es) (points, msg) =
     (case type e of
        None \<Rightarrow> Inl TypeError
      | Some ts \<Rightarrow>
          if ''url'' \<in> set ts
          then (let ts' = remove1 ''url'' ts
                in if length ts' > 0
                   then f1_02m_loop es
                          (100, ''Your (meta)data is identified with this identifier(s) and type(s): '' @
                                ''| '' @ id_identifier e @ '': '' @ str_type (Some ts') @ '' | '')
                   else f1_02m_loop es
                          (points, ''Your (meta)data is identified only by URL identifiers:| '' @
                                   id_identifier e @ '': '' @ str_type (Some ts') @ '' | ''))
          else f1_02m_loop es (points, msg))"

definition rda_f1_02m :: "find_ids \<Rightarrow> Evaluator \<Rightarrow> error + (int \<times> string)" where
  "rda_f1_02m find_ids_in_metadata self =
     (let elements = [''identifier''];
          id_list = find_ids_in_metadata (metadata self) elements
      in if length id_list > 0
         then (let typed = filter (\<lambda>e. type e \<noteq> None) id_list
               in if length typed > 0
                  then f1_02m_loop typed (0, '''')
                  else Inl ValueError)
         else Inr (0, ''Your (meta)data is not identified by persistent & unique identifiers:''))"

definition rda_f1_02d :: "find_ids \<Rightarrow> Evaluator \<Rightarrow> error + (int \<times> string)" where
  "rda_f1_02d find_ids_in_metadata self = rda_f1_02m find_ids_in_metadata self"

subsection \<open>The constructor\<close>

text \<open>
  The harvest is external: \<open>oai_metadataFormats\<close> answers with the formats of the
  endpoint as (prefix, namespace) pairs, in the order of the dictionary, and
  \<open>get_record_metadata oai_base dc_prefix item_id\<close> stands for
  \<open>oai_get_metadata(oai_check_record_url(...)).find('.//{...}metadata')\<close>: it raises,
  or finds no \<open>metadata\<close> element (\<open>None\<close>), or gives the descendants of that
  element in document order, each with its tag and its text. The constructor has no
  \<open>try\<close>: whatever a call raises leaves it.
\<close>

record harvester =
  oai_metadataFormats :: "string \<Rightarrow> error + (string \<times> string) list"
  get_record_metadata ::
    "string \<Rightarrow> string \<Rightarrow> string \<Rightarrow> error + (string \<times> string option) list option"

fun dc_prefix_loop :: "(string \<times> string) list \<Rightarrow> string \<Rightarrow> string" where
  "dc_prefix_loop [] dc_prefix = dc_prefix"
| "dc_prefix_loop ((e, ns) # rest) dc_prefix =
     dc_prefix_loop rest
       (if ns = ''http://www.openarchives.org/OAI/2.0/oai_dc/'' then e else dc_prefix)"

text \<open>
  \<open>tag[0:tag.rfind("}")+1]\<close> and \<open>tag[tag.rfind("}")+1:len(tag)]\<close>: the element is
  what follows the last closing brace, the whole tag when there is none.
\<close>

definition split_tag :: "string \<Rightarrow> string \<times> string" where
  "split_tag tag =
     (let el = rev (takeWhile (\<lambda>c. c \<noteq> CHR 0x7D) (rev tag))
      in (take (length tag - length el) tag, el))"

definition row_of_node :: "string \<times> string option \<Rightarrow> row" where
  "row_of_node node =
     \<lparr>metadata_schema = fst (split_tag (fst node)),
      element = snd (split_tag (fst node)),
      text_value = snd node,
      qualifier = None\<rparr>"

definition Evaluator_init ::
  "idutils \<Rightarrow> harvester \<Rightarrow> string \<Rightarrow> string option \<Rightarrow> error + Evaluator" where
  "Evaluator_init idu h iid base =
     (case base of
        None \<Rightarrow> Inl TypeError
      | Some b \<Rightarrow>
          (case oai_metadataFormats h b of
             Inl err \<Rightarrow> Inl err
           | Inr metadataFormats \<Rightarrow>
               (let dc_prefix = dc_prefix_loop metadataFormats ''''
                in case detect_identifier_schemes idu (Some iid) of
                     Inl err \<Rightarrow> Inl err
                   | Inr [] \<Rightarrow> Inl IndexError
                   | Inr (id_type # others) \<Rightarrow>
                       (case get_record_metadata h b dc_prefix iid of
                          Inl err \<Rightarrow> Inl err
                        | Inr None \<Rightarrow> Inl AttributeError
                        | Inr (Some nodes) \<Rightarrow>
                            (let data = map row_of_node nodes
                             in Inr \<lparr>item_id = iid, oai_base = Some b, metadata = data,
                                     access_protocols =
                                       (if length data > 0 then [''http'', ''oai-pmh'']
                                        else [])\<rparr>)))))"

subsection \<open>Example environments\<close>

text \<open>
  Stand-ins for the external collaborators, used to run the model on concrete inputs:
  a scheme detector that knows DOIs by their prefix \<open>10.\<close>, a network that serves
  one licence page, an endpoint that is down and an endpoint whose record is empty.
\<close>

definition example_idutils :: idutils where
  "example_idutils =
     \<lparr>detect_identifier_schemes =
        (\<lambda>v. case v of
               None \<Rightarrow> Inl TypeError
             | Some s \<Rightarrow> Inr (if take 3 s = ''10.'' then [''doi'', ''handle''] else [])),
      normalize_pid =
        (\<lambda>v scheme. case v of None \<Rightarrow> Inl TypeError | Some s \<Rightarrow> Inr s)\<rparr>"

definition example_requests :: transport where
  "example_requests req =
     (if url req = ''https://creativecommons.org/licenses/by/4.0/'' then Inr 200
      else if take 4 (url req) = ''http'' then Inr 404
      else Inl RequestException)"

definition example_find_ids :: find_ids where
  "example_find_ids md elements =
     map (\<lambda>r. \<lparr>id_identifier = str_opt (text_value r),
               type = (if take 3 (str_opt (text_value r)) = ''10.''
                       then Some [''doi'', ''handle''] else None)\<rparr>)
       (filter (\<lambda>r. element r \<in> set elements) md)"

definition harvester_down :: harvester where
  "harvester_down =
     \<lparr>oai_metadataFormats = (\<lambda>b. Inl RequestException),
      get_record_metadata = (\<lambda>b p i. Inl RequestException)\<rparr>"

definition harvester_empty_record :: harvester where
  "harvester_empty_record =
     \<lparr>oai_metadataFormats =
        (\<lambda>b. Inr [(''oai_dc'', ''http://www.openarchives.org/OAI/2.0/oai_dc/'')]),
      get_record_metadata = (\<lambda>b p i. Inr (Some []))\<rparr>"

definition dc_row :: "string \<Rightarrow> string \<Rightarrow> row" where
  "dc_row e v =
     \<lparr>metadata_schema = ''{http://purl.org/dc/elements/1.1/}'', element = e,
      text_value = Some v, qualifier = None\<rparr>"

definition evaluator_of :: "row list \<Rightarrow> Evaluator" where
  "evaluator_of md =
     \<lparr>item_id = ''10.1/abc'', oai_base = Some ''http://repo.example.org/oai'',
      metadata = md,
      access_protocols = (if length md > 0 then [''http'', ''oai-pmh''] else [])\<rparr>"

section \<open>Properties\<close>

text \<open>
  C2. The status of a score is \<open>fail\<close> up to 50, \<open>indeterminate\<close> strictly between
  50 and 75, and \<open>pass\<close> from 75 on; in particular at 49, 50, 74 and 75. The bounds
  0 and 100 of the score play no part.
\<close>

theorem test_status_thresholds:
  "(points \<le> 50 \<longrightarrow> test_status points = ''fail'') \<and>
   (50 < points \<and> points < 75 \<longrightarrow> test_status points = ''indeterminate'') \<and>
   (75 \<le> points \<longrightarrow> test_status points = ''pass'') \<and>
   test_status 49 = ''fail'' \<and> test_status 50 = ''fail'' \<and>
   test_status 74 = ''indeterminate'' \<and> test_status 75 = ''pass''"
  by (simp add: test_status_def)

theorem test_status_thresholds_witness:
  "(0::int) \<le> 50 \<and> test_status 0 = ''fail'' \<and>
   (50::int) < 60 \<and> (60::int) < 75 \<and> test_status 60 = ''indeterminate'' \<and>
   (75::int) \<le> 100 \<and> test_status 100 = ''pass''"
  using test_status_thresholds [of 0] test_status_thresholds [of 60]
    test_status_thresholds [of 100]
  by simp

text \<open>
  C3. The colour of a score is red below 50, amber from 50 to 80 and green above 80;
  in particular at 49, 50, 80 and 81. The colour bounds are not the status bounds: from
  75 to 80 the status is already \<open>pass\<close> while the colour is still amber.
\<close>

theorem get_color_thresholds:
  "(points < 50 \<longrightarrow> get_color points = ''#E74C3C'') \<and>
   (50 \<le> points \<and> points \<le> 80 \<longrightarrow> get_color points = ''#F4D03F'') \<and>
   (80 < points \<longrightarrow> get_color points = ''#2ECC71'') \<and>
   get_color 49 = ''#E74C3C'' \<and> get_color 50 = ''#F4D03F'' \<and>
   get_color 80 = ''#F4D03F'' \<and> get_color 81 = ''#2ECC71'' \<and>
   (75 \<le> points \<and> points \<le> 80 \<longrightarrow>
      test_status points = ''pass'' \<and> get_color points = ''#F4D03F'')"
  by (simp add: get_color_def test_status_def)

theorem get_color_thresholds_witness:
  "(0::int) < 50 \<and> get_color 0 = ''#E74C3C'' \<and>
   (50::int) \<le> 77 \<and> (77::int) \<le> 80 \<and> get_color 77 = ''#F4D03F'' \<and>
   (80::int) < 100 \<and> get_color 100 = ''#2ECC71'' \<and>
   (75::int) \<le> 77 \<and> test_status 77 = ''pass''"
  using get_color_thresholds [of 0] get_color_thresholds [of 77]
    get_color_thresholds [of 100]
  by simp

text \<open>
  C9. The indicators RDA-F4-01M and RDA-I1-01M are binary on emptiness: each returns
  100 with its message when the table has a row, and 0 with its other message when the
  table is empty.
\<close>

theorem binary_on_emptiness:
  "(metadata self \<noteq> [] \<longrightarrow>
      rda_f4_01m self =
        Inr (100, ''Your digital object is available via OAI-PMH harvesting protocol'') \<and>
      rda_i1_01m self =
        Inr (100, ''Metadata using interoperable representation (XML)'')) \<and>
   (metadata self = [] \<longrightarrow>
      rda_f4_01m self =
        Inr (0, ''Your digital object is not available via OAI-PMH. Please, contact to DIGITAL.CSIC admins'') \<and>
      rda_i1_01m self =
        Inr (0, ''Metadata IS NOT using interoperable representation (XML)''))"
  by (simp add: rda_f4_01m_def rda_i1_01m_def)

theorem binary_on_emptiness_witness:
  "rda_f4_01m \<lparr>item_id = ''10.1/abc'', oai_base = None,
      metadata = [\<lparr>metadata_schema = '''', element = ''title'',
                   text_value = Some ''A title'', qualifier = None\<rparr>],
      access_protocols = []\<rparr> =
     Inr (100, ''Your digital object is available via OAI-PMH harvesting protocol'') \<and>
   rda_i1_01m \<lparr>item_id = ''10.1/abc'', oai_base = None, metadata = [],
      access_protocols = []\<rparr> =
     Inr (0, ''Metadata IS NOT using interoperable representation (XML)'')"
  using binary_on_emptiness [of "\<lparr>item_id = ''10.1/abc'', oai_base = None,
      metadata = [\<lparr>metadata_schema = '''', element = ''title'',
                   text_value = Some ''A title'', qualifier = None\<rparr>],
      access_protocols = []\<rparr>"]
    binary_on_emptiness [of "\<lparr>item_id = ''10.1/abc'', oai_base = None, metadata = [],
      access_protocols = []\<rparr>"]
  by simp

subsection \<open>Qualified references\<close>

lemma i3_02m_loop_count:
  "i3_02m_loop idu iid rs (references, ref_types) = Inr (references', ref_types')
   \<Longrightarrow> references' = references \<and> ref_types' = ref_types"
  by (induction rs arbitrary: references ref_types)
     (auto simp: str_add_list_def split: sum.splits list.splits if_splits)

text \<open>
  Whatever \<open>idutils\<close> does, RDA-I3-02M never returns the score 100: a loop that
  ends has counted nothing.
\<close>

lemma rda_i3_02m_never_100: "rda_i3_02m idu self \<noteq> Inr (100, msg)"
proof (cases "i3_02m_loop idu (item_id self) (metadata self) (0, '''')")
  case (Inl err)
  then show ?thesis by (simp add: rda_i3_02m_def)
next
  case (Inr p)
  obtain references ref_types where p: "p = (references, ref_types)" by (cases p)
  from Inr p have "references = 0" using i3_02m_loop_count by blast
  with Inr p show ?thesis by (simp add: rda_i3_02m_def)
qed

text \<open>
  C1. Self-reference exclusion in RDA-I3-02M: a row whose value has a scheme counts as
  an external reference iff its normal form differs from the subject's, so the object
  \<open>10.1/abc\<close> with a relation to \<open>10.1/xyz\<close> should score 100 with one reference
  counted. The code does not get there: as soon as the value has a scheme and its normal
  form differs from the subject's, the method raises \<open>TypeError\<close> (the
  \<open>str + list\<close> of the loop) and returns nothing. The self-reference
  \<open>10.1/abc\<close> is skipped and the method returns 0.
\<close>

theorem rda_i3_02m_external_reference_raises:
  assumes "detect_identifier_schemes idu (Some ''10.1/xyz'') = Inr (scheme0 # schemes)"
    and "normalize_pid idu (Some ''10.1/xyz'') scheme0 = Inr a"
    and "normalize_pid idu (Some ''10.1/abc'') scheme0 = Inr b"
    and "a \<noteq> b"
  shows "rda_i3_02m idu (evaluator_of [dc_row ''relation'' ''10.1/xyz'']) = Inl TypeError"
  using assms
  by (simp add: rda_i3_02m_def evaluator_of_def dc_row_def str_add_list_def)

theorem rda_i3_02m_external_reference_raises_witness:
  "rda_i3_02m example_idutils (evaluator_of [dc_row ''relation'' ''10.1/xyz'']) = Inl TypeError"
  using rda_i3_02m_external_reference_raises
    [of example_idutils "''doi''" "[''handle'']" "''10.1/xyz''" "''10.1/abc''"]
  by (simp add: example_idutils_def)

lemma rda_i3_02m_self_reference:
  "rda_i3_02m example_idutils (evaluator_of [dc_row ''relation'' ''10.1/abc'']) =
     Inr (0, ''Your (meta)data does not include qualified references to other digital objects or contributors. If your digital object is isolated, you can consider this OK, but it is recommendable to include such as references'')"
  by (simp add: rda_i3_02m_def evaluator_of_def dc_row_def example_idutils_def)

subsection \<open>The liveness probe\<close>

text \<open>
  C8, as the code has it. The probe is true exactly when the GET is answered with
  status 200, and false when the call raises or is answered with another status; no
  exception leaves it. The request is a GET of the URL with \<open>verify=False\<close> and no
  timeout: an explicit timeout is not part of the request.
\<close>

theorem check_url_liveness:
  "(check_url requests u \<longleftrightarrow> requests (check_url_request u) = Inr 200) \<and>
   (requests (check_url_request u) = Inl err \<longrightarrow> check_url requests u = False) \<and>
   (requests (check_url_request u) = Inr status_code \<and> status_code \<noteq> 200
      \<longrightarrow> check_url requests u = False) \<and>
   check_url_request u = \<lparr>http_method = ''GET'', url = u, verify = False, timeout = None\<rparr>"
  by (auto simp: check_url_def check_url_request_def split: sum.splits)

theorem check_url_liveness_witness:
  "check_url example_requests ''https://creativecommons.org/licenses/by/4.0/'' = True \<and>
   example_requests (check_url_request ''h'') = Inl RequestException \<and>
   check_url example_requests ''h'' = False \<and>
   example_requests (check_url_request ''http://example.org/missing'') = Inr 404 \<and>
   check_url example_requests ''http://example.org/missing'' = False"
  using check_url_liveness [of example_requests "''https://creativecommons.org/licenses/by/4.0/''"]
    check_url_liveness [of example_requests "''h''" RequestException]
    check_url_liveness [of example_requests "''http://example.org/missing''" _ 404]
  by (simp add: example_requests_def check_url_request_def)

theorem check_url_no_timeout_counterexample:
  "timeout (check_url_request ''https://creativecommons.org/licenses/by/4.0/'') = None"
  by (simp add: check_url_request_def)

subsection \<open>License standardness\<close>

text \<open>
  C6. License standardness: a license term whose URL answers 200 should score 100, and
  a table without a license term scores 0. The code probes \<open>row[0]\<close>, the first
  character of the license text, not the text: for the license
  \<open>https://creativecommons.org/licenses/by/4.0/\<close> it asks for \<open>h\<close>, and unless
  that answers 200 the score is 0. Without a license term the score is 0.
\<close>

theorem rda_r1_1_02m_probes_first_character:
  "(requests (check_url_request ''h'') \<noteq> Inr 200 \<longrightarrow>
      rda_r1_1_02m requests
        (evaluator_of [dc_row ''license'' ''https://creativecommons.org/licenses/by/4.0/'']) =
      Inr (0, ''Your license is NOT included or DOES NOT refer to a standard reuse license'')) \<and>
   (license_values (metadata self) = [] \<longrightarrow>
      rda_r1_1_02m requests self =
      Inr (0, ''Your license is NOT included or DOES NOT refer to a standard reuse license''))"
  by (auto simp: rda_r1_1_02m_def evaluator_of_def dc_row_def check_url_def split: sum.splits)

theorem rda_r1_1_02m_probes_first_character_witness:
  "check_url example_requests ''https://creativecommons.org/licenses/by/4.0/'' \<and>
   rda_r1_1_02m example_requests
     (evaluator_of [dc_row ''license'' ''https://creativecommons.org/licenses/by/4.0/'']) =
     Inr (0, ''Your license is NOT included or DOES NOT refer to a standard reuse license'') \<and>
   rda_r1_1_02m example_requests (evaluator_of [dc_row ''title'' ''A title'']) =
     Inr (0, ''Your license is NOT included or DOES NOT refer to a standard reuse license'')"
  using rda_r1_1_02m_probes_first_character
      [of example_requests "evaluator_of [dc_row ''title'' ''A title'']"]
  by (simp add: example_requests_def check_url_request_def check_url_def
        evaluator_of_def dc_row_def)

subsection \<open>Human access to the data\<close>

text \<open>
  C10. With \<open>found\<close> the column that the presence check returns for the vocabulary
  \<open>access\<close>, \<open>rights\<close> (both with the qualifier \<open>''\<close>): when a term is found,
  RDA-A1-02D raises \<open>NameError\<close> and returns no pair; when none is found, it returns
  0 with the message \<open>Checking Dublin Core\<close>. A term is found exactly when a row of
  the table has the element \<open>access\<close> or \<open>rights\<close> and the qualifier \<open>''\<close>.
\<close>

theorem rda_a1_02d_unbound_name:
  "(list_ex (\<lambda>e. found e = 1)
      (check_metadata_terms (metadata self) [(''access'', Some ''''), (''rights'', Some '''')])
    \<longrightarrow> rda_a1_02d self = Inl NameError) \<and>
   (\<not> list_ex (\<lambda>e. found e = 1)
      (check_metadata_terms (metadata self) [(''access'', Some ''''), (''rights'', Some '''')])
    \<longrightarrow> rda_a1_02d self = Inr (0, ''Checking Dublin Core'')) \<and>
   (list_ex (\<lambda>e. found e = 1)
      (check_metadata_terms (metadata self) [(''access'', Some ''''), (''rights'', Some '''')])
    \<longleftrightarrow>
    list_ex (\<lambda>r. (element r = ''access'' \<or> element r = ''rights'') \<and> qualifier r = Some '''')
      (metadata self))"
proof -
  let ?A = "list_ex (term_matches ''access'' (Some '''')) (metadata self)"
  let ?R = "list_ex (term_matches ''rights'' (Some '''')) (metadata self)"
  have tl: "check_metadata_terms (metadata self) [(''access'', Some ''''), (''rights'', Some '''')] =
      [\<lparr>tr_term = ''access'', tr_qualifier = Some '''', found = (if ?A then 1 else 0)\<rparr>,
       \<lparr>tr_term = ''rights'', tr_qualifier = Some '''', found = (if ?R then 1 else 0)\<rparr>]"
    by (simp add: check_metadata_terms_def)
  have rows: "(?A \<or> ?R) \<longleftrightarrow>
      list_ex (\<lambda>r. (element r = ''access'' \<or> element r = ''rights'') \<and> qualifier r = Some '''')
        (metadata self)"
    by (auto simp: list_ex_iff term_matches_def)
  have res: "rda_a1_02d self =
      (if ?A \<or> ?R then Inl NameError else Inr (0, ''Checking Dublin Core''))"
    by (simp add: rda_a1_02d_def tl Let_def)
  have ex: "list_ex (\<lambda>e. found e = 1)
      (check_metadata_terms (metadata self) [(''access'', Some ''''), (''rights'', Some '''')])
      \<longleftrightarrow> ?A \<or> ?R"
    by (simp add: tl)
  show ?thesis
    unfolding ex res rows [symmetric] by simp
qed

theorem rda_a1_02d_unbound_name_witness:
  "rda_a1_02d (evaluator_of [(dc_row ''rights'' ''open access'')\<lparr>qualifier := Some ''''\<rparr>]) =
     Inl NameError \<and>
   rda_a1_02d (evaluator_of [dc_row ''title'' ''A title'']) = Inr (0, ''Checking Dublin Core'')"
  using rda_a1_02d_unbound_name
      [of "evaluator_of [(dc_row ''rights'' ''open access'')\<lparr>qualifier := Some ''''\<rparr>]"]
    rda_a1_02d_unbound_name [of "evaluator_of [dc_row ''title'' ''A title'']"]
  by (simp add: check_metadata_terms_def term_matches_def evaluator_of_def dc_row_def)

subsection \<open>Richness of the description\<close>

lemma length_check_metadata_terms:
  "length (check_metadata_terms md terms) = length terms"
  by (simp add: check_metadata_terms_def)

lemma sum_found_check_metadata_terms:
  "sum_list (map found (check_metadata_terms md terms)) =
     int (length (filter (requirement_met md) terms))"
  by (induction terms)
     (auto simp: check_metadata_terms_def requirement_met_def split: prod.splits)

lemma length_filter_full:
  "length (filter P xs) = length xs \<longleftrightarrow> list_all P xs"
proof (induction xs)
  case Nil
  show ?case by simp
next
  case (Cons x xs)
  have "length (filter P xs) \<le> length xs" by (rule length_filter_le)
  then have "length (filter P xs) \<noteq> Suc (length xs)" by arith
  with Cons show ?case by auto
qed

lemma f2_01m_points_coverage:
  "f2_01m_points (check_metadata_terms md terms_quali_f2_01m) =
     Inr (coverage md terms_quali_f2_01m)"
proof -
  have n: "length terms_quali_f2_01m = 8" by (simp add: terms_quali_f2_01m_def)
  show ?thesis
    by (simp add: f2_01m_points_def coverage_def length_check_metadata_terms
          sum_found_check_metadata_terms n)
qed

lemma coverage_steps:
  "\<exists>k\<le>8. coverage md terms_quali_f2_01m = 25 * of_nat k / 2"
proof -
  have n: "length terms_quali_f2_01m = 8" by (simp add: terms_quali_f2_01m_def)
  have "length (filter (requirement_met md) terms_quali_f2_01m) \<le> length terms_quali_f2_01m"
    by (rule length_filter_le)
  then have "length (filter (requirement_met md) terms_quali_f2_01m) \<le> 8" by (simp add: n)
  moreover have "coverage md terms_quali_f2_01m =
      25 * of_nat (length (filter (requirement_met md) terms_quali_f2_01m)) / 2"
    by (simp add: coverage_def n)
  ultimately show ?thesis by blast
qed

lemma coverage_range:
  "0 \<le> coverage md terms_quali_f2_01m \<and> coverage md terms_quali_f2_01m \<le> 100"
proof -
  obtain k :: nat where k: "k \<le> 8" "coverage md terms_quali_f2_01m = 25 * of_nat k / 2"
    using coverage_steps by blast
  from k(1) have "(of_nat k :: rat) \<le> 8" by (metis of_nat_le_iff of_nat_numeral)
  with k(2) show ?thesis by simp
qed

lemma coverage_full:
  "coverage md terms_quali_f2_01m = 100 \<longleftrightarrow>
     list_all (requirement_met md) terms_quali_f2_01m"
proof -
  have n: "length terms_quali_f2_01m = 8" by (simp add: terms_quali_f2_01m_def)
  let ?k = "length (filter (requirement_met md) terms_quali_f2_01m)"
  have "coverage md terms_quali_f2_01m = 100 \<longleftrightarrow> (of_nat ?k :: rat) = 8"
    by (simp add: coverage_def n)
  also have "\<dots> \<longleftrightarrow> ?k = 8" by (metis of_nat_eq_iff of_nat_numeral)
  also have "\<dots> \<longleftrightarrow> list_all (requirement_met md) terms_quali_f2_01m"
    using length_filter_full [of "requirement_met md" terms_quali_f2_01m] by (simp add: n)
  finally show ?thesis .
qed

lemma rda_f2_01m_generic_score:
  "\<exists>msg. rda_f2_01m_generic self = Inr (coverage (metadata self) terms_quali_f2_01m, msg)"
  by (simp add: rda_f2_01m_generic_def f2_01m_points_coverage Let_def)

lemma rda_f2_01m_disciplinar_score:
  "\<exists>msg. rda_f2_01m_disciplinar self = Inr (coverage (metadata self) terms_quali_f2_01m, msg)"
  by (simp add: rda_f2_01m_disciplinar_def f2_01m_points_coverage Let_def)

lemma rda_f2_01m_score:
  "\<exists>msg. rda_f2_01m self = Inr (coverage (metadata self) terms_quali_f2_01m, msg)"
proof -
  obtain msg_g where g: "rda_f2_01m_generic self =
      Inr (coverage (metadata self) terms_quali_f2_01m, msg_g)"
    using rda_f2_01m_generic_score by blast
  obtain msg_d where d: "rda_f2_01m_disciplinar self =
      Inr (coverage (metadata self) terms_quali_f2_01m, msg_d)"
    using rda_f2_01m_disciplinar_score by blast
  show ?thesis by (simp add: rda_f2_01m_def g d)
qed

lemma twenty_five_halves_not_int: "(25 / 2 :: rat) \<notin> \<int>"
proof
  assume "(25 / 2 :: rat) \<in> \<int>"
  then obtain k :: int where k: "(25 / 2 :: rat) = of_int k" by (auto elim: Ints_cases)
  then have "(25 :: rat) = of_int (2 * k)" by simp
  then have "(25 :: int) = 2 * k" by (metis of_int_eq_iff of_int_numeral)
  then show False by presburger
qed

text \<open>
  C4, as the code has it. The score of RDA-F2-01M-GENERIC, and the average that
  RDA-F2-01M returns, is the coverage fraction 100 * matched / 8 itself: it is computed
  exactly and never rounded. It lies between 0 and 100 and is a multiple of 12.5, and it
  is 100 exactly when every required (element, qualifier) pair has a matching entry.
\<close>

theorem rda_f2_01m_coverage_unrounded:
  "(\<exists>msg. rda_f2_01m_generic self =
            Inr (coverage (metadata self) terms_quali_f2_01m, msg)) \<and>
   (\<exists>msg. rda_f2_01m self = Inr (coverage (metadata self) terms_quali_f2_01m, msg)) \<and>
   0 \<le> coverage (metadata self) terms_quali_f2_01m \<and>
   coverage (metadata self) terms_quali_f2_01m \<le> 100 \<and>
   (\<exists>k\<le>8. coverage (metadata self) terms_quali_f2_01m = 25 * of_nat k / 2) \<and>
   (coverage (metadata self) terms_quali_f2_01m = 100 \<longleftrightarrow>
      list_all (requirement_met (metadata self)) terms_quali_f2_01m)"
  using rda_f2_01m_generic_score [of self] rda_f2_01m_score [of self]
    coverage_range [of "metadata self"] coverage_steps [of "metadata self"]
    coverage_full [of "metadata self"]
  by blast

theorem rda_f2_01m_coverage_unrounded_witness:
  "list_all
     (requirement_met
        [dc_row ''contributor'' ''C'', dc_row ''date'' ''2020'', dc_row ''description'' ''D'',
         dc_row ''identifier'' ''10.1/abc'', dc_row ''publisher'' ''P'', dc_row ''rights'' ''R'',
         dc_row ''title'' ''T'', dc_row ''subject'' ''S''])
     terms_quali_f2_01m \<and>
   coverage
     [dc_row ''contributor'' ''C'', dc_row ''date'' ''2020'', dc_row ''description'' ''D'',
      dc_row ''identifier'' ''10.1/abc'', dc_row ''publisher'' ''P'', dc_row ''rights'' ''R'',
      dc_row ''title'' ''T'', dc_row ''subject'' ''S'']
     terms_quali_f2_01m = 100"
  using rda_f2_01m_coverage_unrounded
    [of "evaluator_of
      [dc_row ''contributor'' ''C'', dc_row ''date'' ''2020'', dc_row ''description'' ''D'',
       dc_row ''identifier'' ''10.1/abc'', dc_row ''publisher'' ''P'', dc_row ''rights'' ''R'',
       dc_row ''title'' ''T'', dc_row ''subject'' ''S'']"]
  by (simp add: evaluator_of_def requirement_met_def term_matches_def dc_row_def
        terms_quali_f2_01m_def)

theorem rda_f2_01m_generic_not_integer_counterexample:
  "rda_f2_01m_generic (evaluator_of [dc_row ''title'' ''A title'']) =
     Inr (25 / 2, ''Checking Dublin Core... Missing terms:| term: contributor, qualifier: None| term: date, qualifier: None| term: description, qualifier: None| term: identifier, qualifier: None| term: publisher, qualifier: None| term: rights, qualifier: None| term: subject, qualifier: None'') \<and>
   (25 / 2 :: rat) \<notin> \<int>"
proof -
  have tl: "check_metadata_terms [dc_row ''title'' ''A title''] terms_quali_f2_01m =
      [\<lparr>tr_term = ''contributor'', tr_qualifier = None, found = 0\<rparr>,
       \<lparr>tr_term = ''date'', tr_qualifier = None, found = 0\<rparr>,
       \<lparr>tr_term = ''description'', tr_qualifier = None, found = 0\<rparr>,
       \<lparr>tr_term = ''identifier'', tr_qualifier = None, found = 0\<rparr>,
       \<lparr>tr_term = ''publisher'', tr_qualifier = None, found = 0\<rparr>,
       \<lparr>tr_term = ''rights'', tr_qualifier = None, found = 0\<rparr>,
       \<lparr>tr_term = ''title'', tr_qualifier = None, found = 1\<rparr>,
       \<lparr>tr_term = ''subject'', tr_qualifier = None, found = 0\<rparr>]"
    by (simp add: check_metadata_terms_def terms_quali_f2_01m_def term_matches_def dc_row_def)
  have "rda_f2_01m_generic (evaluator_of [dc_row ''title'' ''A title'']) =
     Inr (25 / 2, ''Checking Dublin Core... Missing terms:| term: contributor, qualifier: None| term: date, qualifier: None| term: description, qualifier: None| term: identifier, qualifier: None| term: publisher, qualifier: None| term: rights, qualifier: None| term: subject, qualifier: None'')"
    by (simp add: rda_f2_01m_generic_def evaluator_of_def tl f2_01m_points_def str_opt_def)
  then show ?thesis using twenty_five_halves_not_int by simp
qed

subsection \<open>The empty table\<close>

lemma init_formats_fail:
  "oai_metadataFormats h b = Inl err \<Longrightarrow> Evaluator_init idu h iid (Some b) = Inl err"
  by (simp add: Evaluator_init_def)

lemma init_record_fail:
  "oai_metadataFormats h b = Inr fmts \<Longrightarrow>
   detect_identifier_schemes idu (Some iid) = Inr (t # ts) \<Longrightarrow>
   get_record_metadata h b (dc_prefix_loop fmts '''') iid = Inl err \<Longrightarrow>
   Evaluator_init idu h iid (Some b) = Inl err"
  by (simp add: Evaluator_init_def)

lemma init_record_empty:
  "oai_metadataFormats h b = Inr fmts \<Longrightarrow>
   detect_identifier_schemes idu (Some iid) = Inr (t # ts) \<Longrightarrow>
   get_record_metadata h b (dc_prefix_loop fmts '''') iid = Inr (Some []) \<Longrightarrow>
   Evaluator_init idu h iid (Some b) =
     Inr \<lparr>item_id = iid, oai_base = Some b, metadata = [], access_protocols = []\<rparr>"
  by (simp add: Evaluator_init_def)

lemma rda_f2_01m_generic_empty:
  "metadata self = [] \<Longrightarrow>
   rda_f2_01m_generic self =
     Inr (0, ''Checking Dublin Core... Missing terms:| term: contributor, qualifier: None| term: date, qualifier: None| term: description, qualifier: None| term: identifier, qualifier: None| term: publisher, qualifier: None| term: rights, qualifier: None| term: title, qualifier: None| term: subject, qualifier: None'')"
  by (simp add: rda_f2_01m_generic_def check_metadata_terms_def terms_quali_f2_01m_def
        f2_01m_points_def str_opt_def)

lemma rda_i3_01m_empty:
  "metadata self = [] \<Longrightarrow>
   rda_i3_01m self =
     Inr (0, ''Your (meta)data does not include references to other digital objects or contributors. If your digital object is isolated, you can consider this OK, but it is recommendable to include such as references'')"
  by (simp add: rda_i3_01m_def)

lemma rda_i3_02m_empty:
  "metadata self = [] \<Longrightarrow>
   rda_i3_02m idu self =
     Inr (0, ''Your (meta)data does not include qualified references to other digital objects or contributors. If your digital object is isolated, you can consider this OK, but it is recommendable to include such as references'')"
  by (simp add: rda_i3_02m_def)

lemma rda_r1_1_02m_empty:
  "metadata self = [] \<Longrightarrow>
   rda_r1_1_02m requests self =
     Inr (0, ''Your license is NOT included or DOES NOT refer to a standard reuse license'')"
  by (simp add: rda_r1_1_02m_def)

lemma rda_a1_02d_empty:
  "metadata self = [] \<Longrightarrow> rda_a1_02d self = Inr (0, ''Checking Dublin Core'')"
  by (simp add: rda_a1_02d_def check_metadata_terms_def)

lemma size_indicators_empty:
  "metadata self = [] \<Longrightarrow>
   rda_f4_01m self =
     Inr (0, ''Your digital object is not available via OAI-PMH. Please, contact to DIGITAL.CSIC admins'') \<and>
   rda_i1_01m self = Inr (0, ''Metadata IS NOT using interoperable representation (XML)'')"
  by (simp add: rda_f4_01m_def rda_i1_01m_def)

text \<open>
  C5, as the code has it. The constructor does not turn a failed harvest into an empty
  table: what the listing of the formats or the fetching of the record raises leaves
  the constructor, and no evaluator is built. A record without metadata nodes gives the
  empty table. On every evaluator with an empty table the indicators RDA-F2-01M-GENERIC,
  RDA-F4-01M, RDA-I1-01M and RDA-I3-01M (and RDA-I3-02M, RDA-R1.1-02M, RDA-A1-02D)
  return the score 0 with a message that is not empty, and raise nothing.
\<close>

theorem empty_table_scores_zero:
  "(oai_metadataFormats h b = Inl err \<longrightarrow> Evaluator_init idu h iid (Some b) = Inl err) \<and>
   (oai_metadataFormats h b = Inr fmts \<and>
    detect_identifier_schemes idu (Some iid) = Inr (t # ts) \<and>
    get_record_metadata h b (dc_prefix_loop fmts '''') iid = Inl err \<longrightarrow>
      Evaluator_init idu h iid (Some b) = Inl err) \<and>
   (oai_metadataFormats h b = Inr fmts \<and>
    detect_identifier_schemes idu (Some iid) = Inr (t # ts) \<and>
    get_record_metadata h b (dc_prefix_loop fmts '''') iid = Inr (Some []) \<longrightarrow>
      Evaluator_init idu h iid (Some b) =
        Inr \<lparr>item_id = iid, oai_base = Some b, metadata = [], access_protocols = []\<rparr>) \<and>
   (metadata self = [] \<longrightarrow>
      rda_f2_01m_generic self =
        Inr (0, ''Checking Dublin Core... Missing terms:| term: contributor, qualifier: None| term: date, qualifier: None| term: description, qualifier: None| term: identifier, qualifier: None| term: publisher, qualifier: None| term: rights, qualifier: None| term: title, qualifier: None| term: subject, qualifier: None'') \<and>
      rda_f4_01m self =
        Inr (0, ''Your digital object is not available via OAI-PMH. Please, contact to DIGITAL.CSIC admins'') \<and>
      rda_i1_01m self = Inr (0, ''Metadata IS NOT using interoperable representation (XML)'') \<and>
      rda_i3_01m self =
        Inr (0, ''Your (meta)data does not include references to other digital objects or contributors. If your digital object is isolated, you can consider this OK, but it is recommendable to include such as references'') \<and>
      rda_i3_02m idu self =
        Inr (0, ''Your (meta)data does not include qualified references to other digital objects or contributors. If your digital object is isolated, you can consider this OK, but it is recommendable to include such as references'') \<and>
      rda_r1_1_02m requests self =
        Inr (0, ''Your license is NOT included or DOES NOT refer to a standard reuse license'') \<and>
      rda_a1_02d self = Inr (0, ''Checking Dublin Core''))"
  using init_formats_fail [of h b err idu iid] init_record_fail [of h b fmts idu iid t ts err]
    init_record_empty [of h b fmts idu iid t ts]
    rda_f2_01m_generic_empty [of self] size_indicators_empty [of self]
    rda_i3_01m_empty [of self] rda_i3_02m_empty [of self idu]
    rda_r1_1_02m_empty [of self requests] rda_a1_02d_empty [of self]
  by blast

theorem empty_table_scores_zero_witness:
  "Evaluator_init example_idutils harvester_empty_record ''10.1/abc''
     (Some ''http://repo.example.org/oai'') = Inr (evaluator_of []) \<and>
   rda_f4_01m (evaluator_of []) =
     Inr (0, ''Your digital object is not available via OAI-PMH. Please, contact to DIGITAL.CSIC admins'') \<and>
   rda_a1_02d (evaluator_of []) = Inr (0, ''Checking Dublin Core'')"
  using empty_table_scores_zero
    [of harvester_empty_record "''http://repo.example.org/oai''" _ example_idutils
        "''10.1/abc''" "[(''oai_dc'', ''http://www.openarchives.org/OAI/2.0/oai_dc/'')]"
        "''doi''" "[''handle'']" "evaluator_of []"]
  by (simp add: harvester_empty_record_def example_idutils_def evaluator_of_def)

theorem harvest_failure_counterexample:
  "Evaluator_init example_idutils harvester_down ''10.1/abc''
     (Some ''http://repo.example.org/oai'') = Inl RequestException"
  by (simp add: Evaluator_init_def harvester_down_def)

subsection \<open>Data indicators that forward to the metadata indicators\<close>

text \<open>
  C7. Each data indicator that calls its metadata counterpart returns the counterpart's
  result, score and message (or its exception), unchanged: RDA-F1-01D and RDA-F1-01M,
  RDA-F1-02D and RDA-F1-02M, RDA-I3-01D and RDA-I3-01M, RDA-I3-02D and RDA-I3-02M.
\<close>

theorem data_indicators_forward:
  "rda_f1_01d find_ids_in_metadata self = rda_f1_01m find_ids_in_metadata self \<and>
   rda_f1_02d find_ids_in_metadata self = rda_f1_02m find_ids_in_metadata self \<and>
   rda_i3_01d self = rda_i3_01m self \<and>
   rda_i3_02d idu self = rda_i3_02m idu self"
  by (simp add: rda_f1_01d_def rda_f1_02d_def rda_i3_01d_def rda_i3_02d_def
        split: sum.splits)

theorem data_indicators_forward_witness:
  "rda_f1_01d example_find_ids (evaluator_of [dc_row ''identifier'' ''abc'']) = Inl ValueError \<and>
   rda_f1_02d example_find_ids (evaluator_of [dc_row ''identifier'' ''10.1/abc'']) = Inr (0, '''') \<and>
   rda_i3_01d (evaluator_of []) =
     Inr (0, ''Your (meta)data does not include references to other digital objects or contributors. If your digital object is isolated, you can consider this OK, but it is recommendable to include such as references'') \<and>
   rda_i3_02d example_idutils (evaluator_of [dc_row ''relation'' ''10.1/xyz'']) = Inl TypeError"
  using data_indicators_forward
      [of example_find_ids "evaluator_of [dc_row ''identifier'' ''abc'']" example_idutils]
    data_indicators_forward
      [of example_find_ids "evaluator_of [dc_row ''identifier'' ''10.1/abc'']" example_idutils]
    data_indicators_forward [of example_find_ids "evaluator_of []" example_idutils]
    data_indicators_forward
      [of example_find_ids "evaluator_of [dc_row ''relation'' ''10.1/xyz'']" example_idutils]
  by (simp add: rda_f1_01m_def rda_f1_02m_def rda_i3_01m_def rda_i3_02m_def
        example_find_ids_def example_idutils_def evaluator_of_def dc_row_def
        str_opt_def str_add_list_def)

end
